theory Spec2Isabelle
  imports Main "HOL-Library.Word"
begin

unbundle bit_operations_syntax

section \<open>Package structopt: the data model\<close>

text \<open>
  Go strings are byte sequences, here \<^typ>\<open>string\<close>. The fixed-width integers
  (\<open>int\<close> on a 64-bit platform, \<open>int64\<close>, \<open>uint64\<close>, \<open>time.Duration\<close>) are
  \<^typ>\<open>64 word\<close>; a \<open>float64\<close> is its IEEE-754 bit pattern, also a
  \<^typ>\<open>64 word\<close>. A parsed \<open>url.URL\<close> is a value of the type parameter \<open>'u\<close>.
  A field whose dynamic type implements the package's \<open>value\<close> interface holds a
  receiver \<open>'r\<close> (usually a pointer); the objects such receivers refer to live in a
  heap \<open>'h\<close> next to the struct.
\<close>

subsection \<open>Errors of the standard library\<close>

datatype numerr = ErrSyntax | ErrRange | ErrBase nat | ErrBitSize nat

datatype liberr =
    NumError string string numerr  \<comment> \<open>\<open>strconv.NumError{Func, Num, Err}\<close>\<close>
  | LibError string                \<comment> \<open>any other error, by its message\<close>

subsection \<open>The standard-library and user functions the package calls\<close>

text \<open>
  The package calls into \<open>strings\<close>, \<open>strconv\<close>, \<open>time\<close> and \<open>net/url\<close>, and into
  the \<open>Set\<close> method of user types. They are not code of the package: the model takes
  them as the fields of a record. A numeric parser returns its value together with an
  optional error, as in Go. \<open>url.Parse\<close> returns a nil pointer exactly when it returns
  an error, hence the sum type.
\<close>

record ('u, 'r, 'h) lib =
  ToUpper :: "string \<Rightarrow> string"
  TrimSpace :: "string \<Rightarrow> string"
  ParseBool :: "string \<Rightarrow> bool \<times> liberr option"
  Atoi :: "string \<Rightarrow> 64 word \<times> liberr option"
  ParseUint :: "string \<Rightarrow> nat \<Rightarrow> nat \<Rightarrow> 64 word \<times> liberr option"
  ParseInt :: "string \<Rightarrow> nat \<Rightarrow> nat \<Rightarrow> 64 word \<times> liberr option"
  ParseFloat :: "string \<Rightarrow> nat \<Rightarrow> 64 word \<times> liberr option"
  ParseDuration :: "string \<Rightarrow> 64 word \<times> liberr option"
  url_Parse :: "string \<Rightarrow> liberr + 'u"
  value_Set :: "'r \<Rightarrow> string \<Rightarrow> 'h \<Rightarrow> liberr option \<times> 'h"
  value_IsBoolFlag :: "'r \<Rightarrow> bool"

subsection \<open>Struct fields and the configuration argument\<close>

text \<open>
  What \<open>val.Interface()\<close> yields for a field, by dynamic type: one constructor per
  case of the type switch in \<open>option.set\<close>, and \<open>IOther\<close> (with the type's name, as
  \<open>reflect.TypeOf\<close> prints it) for everything the switch sends to \<open>default\<close>.
\<close>

datatype ('u, 'r) iface =
    IString string
  | IBool bool
  | IInt "64 word"
  | IUint64 "64 word"
  | IInt64 "64 word"
  | IFloat64 "64 word"
  | IDuration "64 word"
  | IUrl 'u
  | IValue 'r
  | IOther string

text \<open>
  A struct field: \<open>CanSet\<close> is what \<open>reflect.Value.CanSet\<close> reports (the field is
  exported), \<open>tag\<close> is the value of the key \<open>opt\<close> in the field's struct tag when the
  tag has that key, \<open>val\<close> the field's storage.
\<close>

record ('u, 'r) field =
  CanSet :: bool
  tag :: "string option"
  val :: "('u, 'r) iface"

record ('u, 'r, 'h) world =
  structFields :: "('u, 'r) field list"
  heap :: 'h

text \<open>
  The \<open>config interface{}\<close> argument of \<open>Load\<close>: the untyped nil, a struct passed
  by value, any other value that is not a pointer, or a pointer (nil, to something
  that is no struct, or to a struct). Each carries the name \<open>reflect.TypeOf\<close>
  prints. A pointer to a struct addresses the struct of the
  \<^typ>\<open>('u, 'r, 'h) world\<close>.
\<close>

datatype pointee = NilPointer | NonStruct | Struct

datatype config =
    UntypedNil
  | StructValue string
  | OtherValue string
  | Pointer string pointee

datatype Kind = KInvalid | KPtr | KStruct | KOther

fun TypeOf :: "config \<Rightarrow> string" where
  "TypeOf UntypedNil = ''<nil>''"
| "TypeOf (StructValue t) = t"
| "TypeOf (OtherValue t) = t"
| "TypeOf (Pointer t p) = t"

fun ValueOf_Kind :: "config \<Rightarrow> Kind" where
  "ValueOf_Kind UntypedNil = KInvalid"
| "ValueOf_Kind (StructValue t) = KStruct"
| "ValueOf_Kind (OtherValue t) = KOther"
| "ValueOf_Kind (Pointer t p) = KPtr"

text \<open>\<open>v.Elem().Kind()\<close>, which the source evaluates for a pointer only.\<close>

fun Elem_Kind :: "config \<Rightarrow> Kind" where
  "Elem_Kind (Pointer t NilPointer) = KInvalid"
| "Elem_Kind (Pointer t NonStruct) = KOther"
| "Elem_Kind (Pointer t Struct) = KStruct"
| "Elem_Kind c = KInvalid"

subsection \<open>Results\<close>

datatype flagerr =
    BadFlagSyntax string
  | ErrHelp
  | NotDefined string
  | InvalidBoolean string string liberr
  | InvalidBoolFlag string liberr
  | NeedsArgument string
  | InvalidValue string string liberr

datatype error =
    ConfigShape string               \<comment> \<open>config must be a pointer to struct, got T\<close>
  | UnsupportedType string           \<comment> \<open>unsupported field type: T\<close>
  | EnvParse string string liberr    \<comment> \<open>parse error VAR="text": wrapped error\<close>
  | ArgumentParse flagerr            \<comment> \<open>what \<open>FlagSet.Parse\<close> returned\<close>

datatype panic =
    NilDereference
  | FlagBeginsWithMinus string
  | FlagContainsEquals string
  | FlagRedefined string
  | SliceBounds
  | ParsePanic flagerr

text \<open>
  How a call ends: it returns an error value (\<open>None\<close> is Go's nil), it panics, or the
  process exits (\<open>flag.ExitOnError\<close>).
\<close>

datatype outcome = Returns "error option" | Panics panic | Exits nat

section \<open>The option descriptor and \<open>inferOptions\<close>\<close>

definition flagSeps :: string where "flagSeps = ''.-''"
definition envSep :: string where "envSep = ''_''"

text \<open>
  The struct \<open>option\<close>. Its \<open>ptr\<close> is the address of the field's storage, here the
  field's index in the struct; \<open>iface\<close> is the copy of the field's value taken by
  \<open>val.Interface()\<close>.
\<close>

record ('u, 'r) option_s =
  iface :: "('u, 'r) iface"
  ptr :: nat
  envVar :: string
  flagName :: string
  flagDesc :: string

text \<open>\<open>typ.Tag.Get(tagPrefix)\<close>: the empty string when the tag has no such key.\<close>

definition Tag_Get :: "string option \<Rightarrow> string" where
  "Tag_Get t = (case t of None \<Rightarrow> [] | Some s \<Rightarrow> s)"

text \<open>\<open>strings.ReplaceAll\<close> for a non-empty \<open>old\<close> (the package passes one byte).\<close>

fun ReplaceAll :: "string \<Rightarrow> string \<Rightarrow> string \<Rightarrow> string" where
  "ReplaceAll [] old new = []"
| "ReplaceAll (c # cs) old new =
     (if old \<noteq> [] \<and> take (length old) (c # cs) = old
      then new @ ReplaceAll (drop (length old) (c # cs)) old new
      else c # ReplaceAll cs old new)"

text \<open>
  The loop \<open>for _, sep := range flagSeps { strings.ReplaceAll(envVar, string(sep), envSep) }\<close>
  computes one replacement per separator and drops each result: \<open>envVar\<close> is not
  assigned.
\<close>

definition replace_loop :: "string \<Rightarrow> string" where
  "replace_loop ev =
     (let dropped = map (\<lambda>sep. ReplaceAll ev [sep] envSep) flagSeps in ev)"

text \<open>The body of \<open>for i := 0; i < structType.NumField(); i++\<close>, from index \<open>i\<close> on.\<close>

fun infer_loop ::
  "('u, 'r, 'h) lib \<Rightarrow> string \<Rightarrow> nat \<Rightarrow> ('u, 'r) field list \<Rightarrow> ('u, 'r) option_s list"
where
  "infer_loop L prefix i [] = []"
| "infer_loop L prefix i (f # fs) =
     (if \<not> CanSet f then infer_loop L prefix (Suc i) fs
      else let tg = Tag_Get (tag f) in
        if length tg = 0 then infer_loop L prefix (Suc i) fs
        else let ev = replace_loop (ToUpper L tg) in
          \<lparr>iface = val f, ptr = i, envVar = prefix @ envSep @ ev,
            flagName = tg, flagDesc = []\<rparr>
          # infer_loop L prefix (Suc i) fs)"

definition inferOptions ::
  "('u, 'r, 'h) lib \<Rightarrow> string \<Rightarrow> config \<Rightarrow> ('u, 'r, 'h) world
     \<Rightarrow> error + ('u, 'r) option_s list"
where
  "inferOptions L prefix config w =
     (if ValueOf_Kind config = KPtr
      then (if Elem_Kind config = KStruct
            then Inr (infer_loop L prefix 0 (structFields w))
            else Inl (ConfigShape (TypeOf config)))
      else Inl (ConfigShape (TypeOf config)))"

section \<open>The flag-registration collaborator: \<open>flag.FlagSet\<close>\<close>

text \<open>
  The part of Go's package \<open>flag\<close> that \<open>Load\<close> drives: registration
  (\<open>StringVar\<close>, \<open>BoolVar\<close>, ..., \<open>Var\<close>) and \<open>Parse\<close>. Writing the usage message to
  the output stream is left out. A registered flag keeps the \<open>Value\<close> it was given;
  the built-in ones wrap a pointer into the struct (an index), \<open>urlValue\<close> is the
  package's own adapter, \<open>userValue\<close> is a user type registered through \<open>Var\<close>.
  \<open>DefValue\<close> is the default the flag was registered with (Go keeps its rendering
  as text).
\<close>

datatype ErrorHandling = ContinueOnError | ExitOnError | PanicOnError

datatype 'r flagValue =
    stringValue nat
  | boolValue nat
  | intValue nat
  | uint64Value nat
  | int64Value nat
  | float64Value nat
  | durationValue nat
  | urlValue nat
  | userValue 'r

record ('u, 'r) Flag =
  Name :: string
  Usage :: string
  Value :: "'r flagValue"
  DefValue :: "('u, 'r) iface"

record ('u, 'r) FlagSet =
  fsName :: string
  errorHandling :: ErrorHandling
  formal :: "string \<rightharpoonup> ('u, 'r) Flag"
  actual :: "string \<rightharpoonup> ('u, 'r) Flag"
  parsed :: bool
  fsArgs :: "string list"

definition NewFlagSet :: "string \<Rightarrow> ErrorHandling \<Rightarrow> ('u, 'r) FlagSet" where
  "NewFlagSet n eh =
     \<lparr>fsName = n, errorHandling = eh, formal = Map.empty, actual = Map.empty,
      parsed = False, fsArgs = []\<rparr>"

text \<open>
  \<open>FlagSet.Var\<close>: panics on a name that begins with \<open>-\<close>, holds \<open>=\<close>, or is defined
  already; otherwise adds the flag to \<open>formal\<close>.
\<close>

definition FlagSet_Var ::
  "'r flagValue \<Rightarrow> ('u, 'r) iface \<Rightarrow> string \<Rightarrow> string \<Rightarrow> ('u, 'r) FlagSet
     \<Rightarrow> panic + ('u, 'r) FlagSet"
where
  "FlagSet_Var v dflt n usage f =
     (if take 1 n = ''-'' then Inl (FlagBeginsWithMinus n)
      else if CHR ''='' \<in> set n then Inl (FlagContainsEquals n)
      else case formal f n of
             Some old \<Rightarrow> Inl (FlagRedefined n)
           | None \<Rightarrow>
               Inr (f\<lparr>formal := (formal f)(n \<mapsto>
                      \<lparr>Name = n, Usage = usage, Value = v, DefValue = dflt\<rparr>)\<rparr>))"

text \<open>Writing through a field pointer: \<open>*p = v\<close>.\<close>

definition store ::
  "('u, 'r, 'h) world \<Rightarrow> nat \<Rightarrow> ('u, 'r) iface \<Rightarrow> ('u, 'r, 'h) world"
where
  "store w p v =
     w\<lparr>structFields := (structFields w)[p := (structFields w ! p)\<lparr>val := v\<rparr>]\<rparr>"

text \<open>
  \<open>Value.Set\<close> of a registered flag. The built-in numeric values of package \<open>flag\<close>
  parse with base 0 and assign the parser's value also when it failed;
  \<open>urlValue.Set\<close> (this package) returns before the assignment on an error.
\<close>

definition Value_Set ::
  "('u, 'r, 'h) lib \<Rightarrow> 'r flagValue \<Rightarrow> string \<Rightarrow> ('u, 'r, 'h) world
     \<Rightarrow> liberr option \<times> ('u, 'r, 'h) world"
where
  "Value_Set L fv s w =
     (case fv of
        stringValue p \<Rightarrow> (None, store w p (IString s))
      | boolValue p \<Rightarrow> (case ParseBool L s of (v, err) \<Rightarrow> (err, store w p (IBool v)))
      | intValue p \<Rightarrow> (case ParseInt L s 0 64 of (v, err) \<Rightarrow> (err, store w p (IInt v)))
      | uint64Value p \<Rightarrow> (case ParseUint L s 0 64 of (v, err) \<Rightarrow> (err, store w p (IUint64 v)))
      | int64Value p \<Rightarrow> (case ParseInt L s 0 64 of (v, err) \<Rightarrow> (err, store w p (IInt64 v)))
      | float64Value p \<Rightarrow> (case ParseFloat L s 64 of (v, err) \<Rightarrow> (err, store w p (IFloat64 v)))
      | durationValue p \<Rightarrow> (case ParseDuration L s of (v, err) \<Rightarrow> (err, store w p (IDuration v)))
      | urlValue p \<Rightarrow>
          (case url_Parse L s of
             Inl err \<Rightarrow> (Some err, w)
           | Inr u \<Rightarrow> (None, store w p (IUrl u)))
      | userValue r \<Rightarrow>
          (case value_Set L r s (heap w) of (err, h) \<Rightarrow> (err, w\<lparr>heap := h\<rparr>)))"

definition IsBoolFlag :: "('u, 'r, 'h) lib \<Rightarrow> 'r flagValue \<Rightarrow> bool" where
  "IsBoolFlag L fv =
     (case fv of boolValue p \<Rightarrow> True | userValue r \<Rightarrow> value_IsBoolFlag L r | _ \<Rightarrow> False)"

text \<open>
  Splitting \<open>name\<close> at the first \<open>=\<close> that is not its first byte:
  \<open>(name, hasValue, value)\<close>.
\<close>

definition split_value :: "string \<Rightarrow> string \<times> bool \<times> string" where
  "split_value n =
     (case n of
        [] \<Rightarrow> ([], False, [])
      | c # cs \<Rightarrow>
          (case dropWhile (\<lambda>x. x \<noteq> CHR ''='') cs of
             [] \<Rightarrow> (n, False, [])
           | e # v \<Rightarrow> (c # takeWhile (\<lambda>x. x \<noteq> CHR ''='') cs, True, v)))"

text \<open>
  \<open>FlagSet.parseOne\<close>, after the flag's name has been cut out of the argument \<open>s\<close>
  and \<open>f.args\<close> advanced to \<open>rest\<close>. The result is Go's \<open>(seen, err)\<close>.
\<close>

definition parseFlag ::
  "('u, 'r, 'h) lib \<Rightarrow> string \<Rightarrow> string list \<Rightarrow> ('u, 'r) FlagSet \<times> ('u, 'r, 'h) world
     \<Rightarrow> (bool \<times> flagerr option) \<times> ('u, 'r) FlagSet \<times> ('u, 'r, 'h) world"
where
  "parseFlag L nm rest fw =
     (case fw of (f, w) \<Rightarrow>
      (case split_value nm of (n, hasValue, v) \<Rightarrow>
       (case formal f n of
          None \<Rightarrow>
            (if n = ''help'' \<or> n = ''h''
             then ((False, Some ErrHelp), f\<lparr>fsArgs := rest\<rparr>, w)
             else ((False, Some (NotDefined n)), f\<lparr>fsArgs := rest\<rparr>, w))
        | Some flg \<Rightarrow>
            (if IsBoolFlag L (Value flg)
             then (if hasValue
                   then (case Value_Set L (Value flg) v w of
                           (Some e, w') \<Rightarrow>
                             ((False, Some (InvalidBoolean v n e)), f\<lparr>fsArgs := rest\<rparr>, w')
                         | (None, w') \<Rightarrow>
                             ((True, None),
                              f\<lparr>fsArgs := rest, actual := (actual f)(n \<mapsto> flg)\<rparr>, w'))
                   else (case Value_Set L (Value flg) ''true'' w of
                           (Some e, w') \<Rightarrow>
                             ((False, Some (InvalidBoolFlag n e)), f\<lparr>fsArgs := rest\<rparr>, w')
                         | (None, w') \<Rightarrow>
                             ((True, None),
                              f\<lparr>fsArgs := rest, actual := (actual f)(n \<mapsto> flg)\<rparr>, w')))
             else (if hasValue
                   then (case Value_Set L (Value flg) v w of
                           (Some e, w') \<Rightarrow>
                             ((False, Some (InvalidValue v n e)), f\<lparr>fsArgs := rest\<rparr>, w')
                         | (None, w') \<Rightarrow>
                             ((True, None),
                              f\<lparr>fsArgs := rest, actual := (actual f)(n \<mapsto> flg)\<rparr>, w'))
                   else (case rest of
                           [] \<Rightarrow> ((False, Some (NeedsArgument n)), f\<lparr>fsArgs := rest\<rparr>, w)
                         | a # rest' \<Rightarrow>
                             (case Value_Set L (Value flg) a w of
                                (Some e, w') \<Rightarrow>
                                  ((False, Some (InvalidValue a n e)), f\<lparr>fsArgs := rest'\<rparr>, w')
                              | (None, w') \<Rightarrow>
                                  ((True, None),
                                   f\<lparr>fsArgs := rest', actual := (actual f)(n \<mapsto> flg)\<rparr>,
                                   w'))))))))"

definition parseOne ::
  "('u, 'r, 'h) lib \<Rightarrow> ('u, 'r) FlagSet \<times> ('u, 'r, 'h) world
     \<Rightarrow> (bool \<times> flagerr option) \<times> ('u, 'r) FlagSet \<times> ('u, 'r, 'h) world"
where
  "parseOne L fw =
     (case fw of (f, w) \<Rightarrow>
      (case fsArgs f of
         [] \<Rightarrow> ((False, None), f, w)
       | s # rest \<Rightarrow>
           (if length s < 2 \<or> s ! 0 \<noteq> CHR ''-'' then ((False, None), f, w)
            else if s ! 1 = CHR ''-'' \<and> length s = 2
            then ((False, None), f\<lparr>fsArgs := rest\<rparr>, w)
            else let nm = (if s ! 1 = CHR ''-'' then drop 2 s else drop 1 s) in
              if length nm = 0 \<or> nm ! 0 = CHR ''-'' \<or> nm ! 0 = CHR ''=''
              then ((False, Some (BadFlagSyntax s)), f, w)
              else parseFlag L nm rest (f, w))))"

text \<open>
  \<open>FlagSet.Parse\<close> runs \<open>parseOne\<close> until it reports no flag; an error is handled as
  the set's \<open>errorHandling\<close> says. Each flag seen consumes an argument, so the loop
  ends.
\<close>

lemma parseFlag_seen_args:
  "parseFlag L nm rest (f, w) = ((True, e), f', w') \<Longrightarrow> length (fsArgs f') \<le> length rest"
  by (auto simp: parseFlag_def split: prod.splits option.splits if_splits list.splits)

lemma parseOne_seen_args:
  "parseOne L (f, w) = ((True, e), f', w') \<Longrightarrow> length (fsArgs f') < length (fsArgs f)"
  by (auto simp: parseOne_def Let_def split: list.splits if_splits
           dest!: parseFlag_seen_args)

function parse_loop ::
  "('u, 'r, 'h) lib \<Rightarrow> ('u, 'r) FlagSet \<times> ('u, 'r, 'h) world
     \<Rightarrow> outcome \<times> ('u, 'r) FlagSet \<times> ('u, 'r, 'h) world"
where
  "parse_loop L (f, w) =
     (case parseOne L (f, w) of
        ((True, e), f', w') \<Rightarrow> parse_loop L (f', w')
      | ((False, None), f', w') \<Rightarrow> (Returns None, f', w')
      | ((False, Some e), f', w') \<Rightarrow>
          (case errorHandling f' of
             ContinueOnError \<Rightarrow> (Returns (Some (ArgumentParse e)), f', w')
           | ExitOnError \<Rightarrow> (Exits (if e = ErrHelp then 0 else 2), f', w')
           | PanicOnError \<Rightarrow> (Panics (ParsePanic e), f', w')))"
  by pat_completeness auto
termination
  by (relation "measure (\<lambda>(L, f, w). length (fsArgs f))")
     (auto dest: parseOne_seen_args [OF sym])

definition FlagSet_Parse ::
  "('u, 'r, 'h) lib \<Rightarrow> string list \<Rightarrow> ('u, 'r) FlagSet \<times> ('u, 'r, 'h) world
     \<Rightarrow> outcome \<times> ('u, 'r) FlagSet \<times> ('u, 'r, 'h) world"
where
  "FlagSet_Parse L arguments fw =
     (case fw of (f, w) \<Rightarrow> parse_loop L (f\<lparr>parsed := True, fsArgs := arguments\<rparr>, w))"

section \<open>\<open>option.set\<close> and \<open>Load\<close>\<close>

text \<open>\<open>os.Getenv\<close>: the empty string for a variable that is not set.\<close>

definition Getenv :: "(string \<rightharpoonup> string) \<Rightarrow> string \<Rightarrow> string" where
  "Getenv env k = (case env k of None \<Rightarrow> [] | Some v \<Rightarrow> v)"

text \<open>
  The end of \<open>option.set\<close>, after the type switch: the captured error is returned
  only if the text is not blank.
\<close>

definition after_switch ::
  "('u, 'r, 'h) lib \<Rightarrow> ('u, 'r) option_s \<Rightarrow> string \<Rightarrow> liberr option \<Rightarrow> outcome"
where
  "after_switch L opt fromEnv err =
     (case err of
        None \<Rightarrow> Returns None
      | Some e \<Rightarrow>
          (if TrimSpace L fromEnv \<noteq> []
           then Returns (Some (EnvParse (envVar opt) fromEnv e))
           else Returns None))"

text \<open>
  The registration call that ends each case of the switch (\<open>flags.StringVar\<close>, ...,
  \<open>flags.Var\<close>), followed by the end of the function. The built-in \<open>XxxVar\<close> first
  assign the default to the pointer, here the value just read from it.
\<close>

definition register ::
  "('u, 'r, 'h) lib \<Rightarrow> ('u, 'r) option_s \<Rightarrow> string \<Rightarrow> liberr option \<Rightarrow> 'r flagValue
     \<Rightarrow> ('u, 'r) iface \<Rightarrow> ('u, 'r) FlagSet \<Rightarrow> ('u, 'r, 'h) world
     \<Rightarrow> outcome \<times> ('u, 'r) FlagSet \<times> ('u, 'r, 'h) world"
where
  "register L opt fromEnv err fv dflt flags w =
     (case FlagSet_Var fv dflt (flagName opt) (flagDesc opt) flags of
        Inl p \<Rightarrow> (Panics p, flags, w)
      | Inr flags' \<Rightarrow> (after_switch L opt fromEnv err, flags', w))"

definition option_set ::
  "('u, 'r, 'h) lib \<Rightarrow> (string \<rightharpoonup> string) \<Rightarrow> ('u, 'r) option_s
     \<Rightarrow> ('u, 'r) FlagSet \<times> ('u, 'r, 'h) world
     \<Rightarrow> outcome \<times> ('u, 'r) FlagSet \<times> ('u, 'r, 'h) world"
where
  "option_set L env opt fw =
     (case fw of (flags, w) \<Rightarrow>
      (let fromEnv = Getenv env (envVar opt); p = ptr opt in
       case iface opt of
         IString x \<Rightarrow>
           register L opt fromEnv None (stringValue p) (IString fromEnv) flags
             (store w p (IString fromEnv))
       | IBool x \<Rightarrow>
           (case ParseBool L fromEnv of (v, err) \<Rightarrow>
              register L opt fromEnv err (boolValue p) (IBool v) flags (store w p (IBool v)))
       | IInt x \<Rightarrow>
           (case Atoi L fromEnv of (v, err) \<Rightarrow>
              register L opt fromEnv err (intValue p) (IInt v) flags (store w p (IInt v)))
       | IUint64 x \<Rightarrow>
           (case ParseUint L fromEnv 10 64 of (v, err) \<Rightarrow>
              register L opt fromEnv err (uint64Value p) (IUint64 v) flags
                (store w p (IUint64 v)))
       | IInt64 x \<Rightarrow>
           (case ParseInt L fromEnv 10 64 of (v, err) \<Rightarrow>
              register L opt fromEnv err (int64Value p) (IInt64 v) flags
                (store w p (IInt64 v)))
       | IFloat64 x \<Rightarrow>
           (case ParseFloat L fromEnv 64 of (v, err) \<Rightarrow>
              register L opt fromEnv err (float64Value p) (IFloat64 v) flags
                (store w p (IFloat64 v)))
       | IDuration x \<Rightarrow>
           (case ParseDuration L fromEnv of (v, err) \<Rightarrow>
              register L opt fromEnv err (durationValue p) (IDuration v) flags
                (store w p (IDuration v)))
       | IUrl x \<Rightarrow>
           (case url_Parse L fromEnv of
              Inl err \<Rightarrow> (Panics NilDereference, flags, w)
            | Inr u \<Rightarrow>
                register L opt fromEnv None (urlValue p) (IUrl u) flags (store w p (IUrl u)))
       | IValue r \<Rightarrow>
           (case value_Set L r fromEnv (heap w) of (err, h) \<Rightarrow>
              register L opt fromEnv err (userValue r) (IValue r) flags (w\<lparr>heap := h\<rparr>))
       | IOther t \<Rightarrow> (Returns (Some (UnsupportedType t)), flags, w)))"

text \<open>The loop \<open>for _, opt := range opts\<close> of \<open>Load\<close>.\<close>

fun set_loop ::
  "('u, 'r, 'h) lib \<Rightarrow> (string \<rightharpoonup> string) \<Rightarrow> ('u, 'r) option_s list
     \<Rightarrow> ('u, 'r) FlagSet \<times> ('u, 'r, 'h) world
     \<Rightarrow> outcome \<times> ('u, 'r) FlagSet \<times> ('u, 'r, 'h) world"
where
  "set_loop L env [] fw = (Returns None, fw)"
| "set_loop L env (opt # opts) fw =
     (case option_set L env opt fw of
        (Returns None, fw') \<Rightarrow> set_loop L env opts fw'
      | (r, fw') \<Rightarrow> (r, fw'))"

text \<open>
  \<open>Load(prefix, config, flags)\<close>. The process environment \<open>env\<close> and the argument
  list \<open>osArgs\<close> (\<open>os.Args\<close>) are read, never written. The result holds the caller's
  \<open>FlagSet\<close> after the call (\<open>None\<close> when the caller passed nil: the set made by
  \<open>flag.NewFlagSet\<close> is dropped) and the world with the caller's struct.
\<close>

text \<open>\<open>fs := flags; if fs == nil { fs = flag.NewFlagSet(prefix, flag.ExitOnError) }\<close>\<close>

definition fs_or_new :: "string \<Rightarrow> ('u, 'r) FlagSet option \<Rightarrow> ('u, 'r) FlagSet" where
  "fs_or_new prefix flags =
     (case flags of None \<Rightarrow> NewFlagSet prefix ExitOnError | Some fl \<Rightarrow> fl)"

definition Load ::
  "('u, 'r, 'h) lib \<Rightarrow> (string \<rightharpoonup> string) \<Rightarrow> string list \<Rightarrow> string \<Rightarrow> config
     \<Rightarrow> ('u, 'r) FlagSet option \<Rightarrow> ('u, 'r, 'h) world
     \<Rightarrow> outcome \<times> ('u, 'r) FlagSet option \<times> ('u, 'r, 'h) world"
where
  "Load L env osArgs prefix config flags w =
     (case inferOptions L prefix config w of
        Inl err \<Rightarrow> (Returns (Some err), flags, w)
      | Inr opts \<Rightarrow>
          (case set_loop L env opts (fs_or_new prefix flags, w) of
             (Returns None, fs, w') \<Rightarrow>
               (case flags of
                  None \<Rightarrow> (Returns None, None, w')
                | Some fl \<Rightarrow>
                    (case osArgs of
                       [] \<Rightarrow> (Panics SliceBounds, Some fs, w')
                     | prog # args \<Rightarrow>
                         (case FlagSet_Parse L args (fs, w') of
                            (r, fs', w'') \<Rightarrow> (r, Some fs', w''))))
           | (r, fs, w') \<Rightarrow> (r, map_option (\<lambda>fl. fs) flags, w')))"

section \<open>The standard library, as far as evaluation needs it\<close>

text \<open>
  The theorems below hold for every library \<open>L\<close>. To run the model on concrete
  inputs, \<open>golib\<close> fixes one. Its \<open>strconv\<close> functions (\<open>ParseBool\<close>, \<open>ParseUint\<close>,
  \<open>ParseInt\<close>, \<open>Atoi\<close>) follow Go's algorithms on a 64-bit platform. \<open>ToUpper\<close> and
  \<open>TrimSpace\<close> are Go's on ASCII text (bytes above 127 are kept and are no white
  space). The remaining functions cover a part of their domain only and report an
  error outside it: \<open>ParseDuration\<close> reads durations without a fractional part,
  \<open>ParseFloat\<close> reads unsigned decimal integers below \<open>2^53\<close>, and \<open>url.Parse\<close>
  rejects a text with an ASCII control byte before its fragment or with no scheme
  before a leading colon, and represents every other URL by its text. The user type
  of \<open>golib\<close> stores any non-empty text at its receiver's address.
\<close>

subsection \<open>\<open>strings\<close>\<close>

definition byte :: "char \<Rightarrow> nat" where
  "byte c = of_char c"

definition upper_byte :: "char \<Rightarrow> char" where
  "upper_byte c = (if 97 \<le> byte c \<and> byte c \<le> 122 then char_of (byte c - 32) else c)"

definition strings_ToUpper :: "string \<Rightarrow> string" where
  "strings_ToUpper s = map upper_byte s"

definition asciiSpace :: "char \<Rightarrow> bool" where
  "asciiSpace c = (byte c = 9 \<or> byte c = 10 \<or> byte c = 11 \<or> byte c = 12 \<or> byte c = 13
                   \<or> byte c = 32)"

definition strings_TrimSpace :: "string \<Rightarrow> string" where
  "strings_TrimSpace s = rev (dropWhile asciiSpace (rev (dropWhile asciiSpace s)))"

subsection \<open>\<open>strconv\<close>\<close>

definition strconv_ParseBool :: "string \<Rightarrow> bool \<times> liberr option" where
  "strconv_ParseBool str =
     (if str \<in> set [''1'', ''t'', ''T'', ''TRUE'', ''true'', ''True''] then (True, None)
      else if str \<in> set [''0'', ''f'', ''F'', ''FALSE'', ''false'', ''False''] then (False, None)
      else (False, Some (NumError ''ParseBool'' str ErrSyntax)))"

text \<open>\<open>lower(c) = c | ('x' - 'X')\<close>.\<close>

definition lower :: "char \<Rightarrow> nat" where
  "lower c = byte c OR 32"

definition digit_val :: "char \<Rightarrow> nat option" where
  "digit_val c =
     (if 48 \<le> byte c \<and> byte c \<le> 57 then Some (byte c - 48)
      else if 97 \<le> lower c \<and> lower c \<le> 122 then Some (lower c - 97 + 10)
      else None)"

text \<open>
  The digit loop of \<open>ParseUint\<close>: the value so far \<open>n\<close>, whether an underscore was
  seen, and the remaining bytes. It returns at the first bad digit and at the first
  overflow.
\<close>

fun uint_loop ::
  "bool \<Rightarrow> nat \<Rightarrow> 64 word \<Rightarrow> 64 word \<Rightarrow> 64 word \<Rightarrow> bool \<Rightarrow> string
     \<Rightarrow> 64 word \<times> numerr option \<times> bool"
where
  "uint_loop base0 base cutoff maxVal n us [] = (n, None, us)"
| "uint_loop base0 base cutoff maxVal n us (c # cs) =
     (if c = CHR ''_'' \<and> base0 then uint_loop base0 base cutoff maxVal n True cs
      else case digit_val c of
             None \<Rightarrow> (0, Some ErrSyntax, us)
           | Some d \<Rightarrow>
               (if base \<le> d then (0, Some ErrSyntax, us)
                else if cutoff \<le> n then (maxVal, Some ErrRange, us)
                else let n' = n * of_nat base; n1 = n' + of_nat d in
                  if n1 < n' \<or> maxVal < n1 then (maxVal, Some ErrRange, us)
                  else uint_loop base0 base cutoff maxVal n1 us cs))"

text \<open>\<open>underscoreOK\<close>: \<open>saw\<close> is the last byte class seen, one of \<open>^ 0 _ !\<close>.\<close>

fun underscore_scan :: "bool \<Rightarrow> char \<Rightarrow> string \<Rightarrow> bool" where
  "underscore_scan hex saw [] = (saw \<noteq> CHR ''_'')"
| "underscore_scan hex saw (c # cs) =
     (if (48 \<le> byte c \<and> byte c \<le> 57) \<or> (hex \<and> 97 \<le> lower c \<and> lower c \<le> 102)
      then underscore_scan hex (CHR ''0'') cs
      else if c = CHR ''_''
      then (if saw \<noteq> CHR ''0'' then False else underscore_scan hex (CHR ''_'') cs)
      else if saw = CHR ''_'' then False
      else underscore_scan hex (CHR ''!'') cs)"

definition underscoreOK :: "string \<Rightarrow> bool" where
  "underscoreOK s0 =
     (let s = (if 1 \<le> length s0 \<and> (s0 ! 0 = CHR ''-'' \<or> s0 ! 0 = CHR ''+'')
               then drop 1 s0 else s0)
      in if 2 \<le> length s \<and> s ! 0 = CHR ''0''
            \<and> (lower (s ! 1) = 98 \<or> lower (s ! 1) = 111 \<or> lower (s ! 1) = 120)
         then underscore_scan (lower (s ! 1) = 120) (CHR ''0'') (drop 2 s)
         else underscore_scan False (CHR ''^'') s)"

text \<open>The base and the digits \<open>ParseUint\<close> settles on for \<open>base = 0\<close>.\<close>

definition base_prefix :: "string \<Rightarrow> nat \<times> string" where
  "base_prefix s =
     (if s ! 0 = CHR ''0''
      then (if 3 \<le> length s \<and> lower (s ! 1) = 98 then (2, drop 2 s)
            else if 3 \<le> length s \<and> lower (s ! 1) = 111 then (8, drop 2 s)
            else if 3 \<le> length s \<and> lower (s ! 1) = 120 then (16, drop 2 s)
            else (8, drop 1 s))
      else (10, s))"

definition strconv_ParseUint :: "string \<Rightarrow> nat \<Rightarrow> nat \<Rightarrow> 64 word \<times> liberr option" where
  "strconv_ParseUint s0 base bitSize =
     (if s0 = [] then (0, Some (NumError ''ParseUint'' s0 ErrSyntax))
      else if base = 1 \<or> 36 < base then (0, Some (NumError ''ParseUint'' s0 (ErrBase base)))
      else if 64 < bitSize then (0, Some (NumError ''ParseUint'' s0 (ErrBitSize bitSize)))
      else
        let (b, s) = (if base = 0 then base_prefix s0 else (base, s0));
            bits = (if bitSize = 0 then 64 else bitSize);
            cutoff = (- 1) div of_nat b + 1;
            maxVal = push_bit bits 1 - 1
        in case uint_loop (base = 0) b cutoff maxVal 0 False s of
             (n, Some k, us) \<Rightarrow> (n, Some (NumError ''ParseUint'' s0 k))
           | (n, None, us) \<Rightarrow>
               (if us \<and> \<not> underscoreOK s0
                then (0, Some (NumError ''ParseUint'' s0 ErrSyntax))
                else (n, None)))"

definition strconv_ParseInt :: "string \<Rightarrow> nat \<Rightarrow> nat \<Rightarrow> 64 word \<times> liberr option" where
  "strconv_ParseInt s0 base bitSize =
     (if s0 = [] then (0, Some (NumError ''ParseInt'' s0 ErrSyntax))
      else
        let neg = (s0 ! 0 = CHR ''-'');
            s = (if s0 ! 0 = CHR ''+'' \<or> s0 ! 0 = CHR ''-'' then drop 1 s0 else s0);
            bits = (if bitSize = 0 then 64 else bitSize);
            cutoff = push_bit (bits - 1) (1 :: 64 word)
        in case strconv_ParseUint s base bitSize of
             (un, Some (NumError fn num ErrRange)) \<Rightarrow>
               (if neg then (- cutoff, Some (NumError ''ParseInt'' s0 ErrRange))
                else (cutoff - 1, Some (NumError ''ParseInt'' s0 ErrRange)))
           | (un, Some (NumError fn num k)) \<Rightarrow> (0, Some (NumError ''ParseInt'' s0 k))
           | (un, Some e) \<Rightarrow> (0, Some e)
           | (un, None) \<Rightarrow>
               (if \<not> neg \<and> cutoff \<le> un
                then (cutoff - 1, Some (NumError ''ParseInt'' s0 ErrRange))
                else if neg \<and> cutoff < un
                then (- cutoff, Some (NumError ''ParseInt'' s0 ErrRange))
                else (if neg then - un else un, None)))"

text \<open>The fast path of \<open>Atoi\<close>: \<open>ch -= '0'\<close> on a byte wraps around.\<close>

fun atoi_loop :: "64 word \<Rightarrow> string \<Rightarrow> 64 word option" where
  "atoi_loop n [] = Some n"
| "atoi_loop n (c # cs) =
     (let ch = (byte c + 256 - 48) mod 256 in
      if 9 < ch then None else atoi_loop (n * 10 + of_nat ch) cs)"

definition strconv_Atoi :: "string \<Rightarrow> 64 word \<times> liberr option" where
  "strconv_Atoi s0 =
     (if 0 < length s0 \<and> length s0 < 19
      then
        (let s = (if s0 ! 0 = CHR ''-'' \<or> s0 ! 0 = CHR ''+'' then drop 1 s0 else s0) in
         if length s < 1 then (0, Some (NumError ''Atoi'' s0 ErrSyntax))
         else case atoi_loop 0 s of
                None \<Rightarrow> (0, Some (NumError ''Atoi'' s0 ErrSyntax))
              | Some n \<Rightarrow> (if s0 ! 0 = CHR ''-'' then - n else n, None))
      else case strconv_ParseInt s0 10 0 of
             (i64, Some (NumError fn num k)) \<Rightarrow> (i64, Some (NumError ''Atoi'' num k))
           | (i64, err) \<Rightarrow> (i64, err))"

text \<open>
  \<open>ParseFloat\<close>, on unsigned decimal integers below \<open>2^53\<close> only: these convert
  without rounding. \<open>bitlen n\<close> is the number of binary digits of \<open>n\<close>.
\<close>

fun bitlen :: "nat \<Rightarrow> nat" where
  "bitlen n = (if n = 0 then 0 else Suc (bitlen (n div 2)))"

definition float64_of_nat :: "nat \<Rightarrow> 64 word" where
  "float64_of_nat n =
     (if n = 0 then 0
      else let e = bitlen n - 1 in of_nat ((1023 + e) * 2 ^ 52 + (n * 2 ^ (52 - e) - 2 ^ 52)))"

fun decimal :: "nat \<Rightarrow> string \<Rightarrow> nat option" where
  "decimal n [] = Some n"
| "decimal n (c # cs) =
     (if 48 \<le> byte c \<and> byte c \<le> 57 then decimal (n * 10 + (byte c - 48)) cs else None)"

definition integral_ParseFloat :: "string \<Rightarrow> nat \<Rightarrow> 64 word \<times> liberr option" where
  "integral_ParseFloat s bitSize =
     (case (if s = [] then None else decimal 0 s) of
        None \<Rightarrow> (0, Some (NumError ''ParseFloat'' s ErrSyntax))
      | Some n \<Rightarrow>
          (if n < 2 ^ 53 then (float64_of_nat n, None)
           else (0, Some (NumError ''ParseFloat'' s ErrSyntax))))"

subsection \<open>\<open>time\<close>\<close>

text \<open>\<open>leadingInt\<close>: \<open>None\<close> is its overflow error.\<close>

fun leadingInt :: "64 word \<Rightarrow> string \<Rightarrow> (64 word \<times> string) option" where
  "leadingInt x [] = Some (x, [])"
| "leadingInt x (c # cs) =
     (if byte c < 48 \<or> 57 < byte c then Some (x, c # cs)
      else if push_bit 63 1 div 10 < x then None
      else let x' = x * 10 + of_nat (byte c) - 48 in
        if push_bit 63 1 < x' then None else leadingInt x' cs)"

definition unitMap :: "string \<Rightarrow> 64 word option" where
  "unitMap u =
     (if u = ''ns'' then Some 1
      else if u = ''us'' then Some 1000
      else if u = [CHR 0xC2, CHR 0xB5, CHR ''s''] then Some 1000
      else if u = [CHR 0xCE, CHR 0xBC, CHR ''s''] then Some 1000
      else if u = ''ms'' then Some 1000000
      else if u = ''s'' then Some 1000000000
      else if u = ''m'' then Some 60000000000
      else if u = ''h'' then Some 3600000000000
      else None)"

definition digit_or_dot :: "char \<Rightarrow> bool" where
  "digit_or_dot c = (c = CHR ''.'' \<or> (48 \<le> byte c \<and> byte c \<le> 57))"

definition is_digit :: "char \<Rightarrow> bool" where
  "is_digit c = (48 \<le> byte c \<and> byte c \<le> 57)"

text \<open>
  One round of the loop of \<open>ParseDuration\<close>: a number and a unit. The result is the
  new sum and the rest of the text, or \<open>None\<close> for an error. A fractional part with a
  non-zero digit needs floating point and is reported as an error here.
\<close>

definition duration_term :: "64 word \<Rightarrow> string \<Rightarrow> (64 word \<times> string) option" where
  "duration_term d s =
     (if s = [] then None
      else if \<not> digit_or_dot (s ! 0) then None
      else case leadingInt 0 s of
             None \<Rightarrow> None
           | Some (v, s1) \<Rightarrow>
               let pre = (length s \<noteq> length s1);
                   hasDot = (s1 \<noteq> [] \<and> s1 ! 0 = CHR ''.'');
                   frac = (if hasDot then takeWhile is_digit (drop 1 s1) else []);
                   s2 = (if hasDot then dropWhile is_digit (drop 1 s1) else s1);
                   post = (frac \<noteq> [])
               in if \<not> pre \<and> \<not> post then None
                  else let u = takeWhile (\<lambda>c. \<not> digit_or_dot c) s2;
                           s3 = dropWhile (\<lambda>c. \<not> digit_or_dot c) s2
                       in if u = [] then None
                          else case unitMap u of
                                 None \<Rightarrow> None
                               | Some un \<Rightarrow>
                                   (if push_bit 63 1 div un < v then None
                                    else if list_ex (\<lambda>c. c \<noteq> CHR ''0'') frac then None
                                    else let d' = d + v * un in
                                      if push_bit 63 1 < d' then None else Some (d', s3)))"

lemma leadingInt_length: "leadingInt x s = Some (v, r) \<Longrightarrow> length r \<le> length s"
  by (induction x s rule: leadingInt.induct) (auto simp: Let_def split: if_splits)

lemma duration_term_length: "duration_term d s = Some (d', r) \<Longrightarrow> length r < length s"
proof -
  assume a: "duration_term d s = Some (d', r)"
  from a obtain v s1 where li: "leadingInt 0 s = Some (v, s1)"
    by (auto simp: duration_term_def split: if_splits option.splits)
  define s2 where
    "s2 = (if s1 \<noteq> [] \<and> s1 ! 0 = CHR ''.'' then dropWhile is_digit (drop 1 s1) else s1)"
  have l1: "length s1 \<le> length s" using li by (rule leadingInt_length)
  have l2: "length s2 \<le> length s1"
    unfolding s2_def
    by (auto intro: order_trans [OF length_dropWhile_le])
  have u: "takeWhile (\<lambda>c. \<not> digit_or_dot c) s2 \<noteq> []"
    and r: "r = dropWhile (\<lambda>c. \<not> digit_or_dot c) s2"
    using a li unfolding duration_term_def s2_def
    by (auto simp: Let_def split: if_splits option.splits)
  have "length (takeWhile (\<lambda>c. \<not> digit_or_dot c) s2) + length r = length s2"
    unfolding r by (metis length_append takeWhile_dropWhile_id)
  with u have "length r < length s2" by (cases "takeWhile (\<lambda>c. \<not> digit_or_dot c) s2") auto
  with l1 l2 show ?thesis by simp
qed

function duration_loop :: "64 word \<Rightarrow> string \<Rightarrow> 64 word option" where
  "duration_loop d s =
     (if s = [] then Some d
      else case duration_term d s of
             None \<Rightarrow> None
           | Some (d', r) \<Rightarrow> duration_loop d' r)"
  by pat_completeness auto
termination
  by (relation "measure (\<lambda>(d, s). length s)") (auto dest: duration_term_length)

definition nofrac_ParseDuration :: "string \<Rightarrow> 64 word \<times> liberr option" where
  "nofrac_ParseDuration orig =
     (let neg = (orig \<noteq> [] \<and> orig ! 0 = CHR ''-'');
          s = (if orig \<noteq> [] \<and> (orig ! 0 = CHR ''-'' \<or> orig ! 0 = CHR ''+'')
               then drop 1 orig else orig)
      in if s = ''0'' then (0, None)
         else if s = [] then (0, Some (LibError (''time: invalid duration '' @ orig)))
         else case duration_loop 0 s of
                None \<Rightarrow> (0, Some (LibError (''time: invalid duration '' @ orig)))
              | Some d \<Rightarrow>
                  (if neg then (- d, None)
                   else if push_bit 63 1 - 1 < d
                   then (0, Some (LibError (''time: invalid duration '' @ orig)))
                   else (d, None)))"

subsection \<open>\<open>net/url\<close> and a user type\<close>

definition controlByte :: "char \<Rightarrow> bool" where
  "controlByte c = (byte c < 32 \<or> byte c = 127)"

definition partial_url_Parse :: "string \<Rightarrow> liberr + string" where
  "partial_url_Parse rawURL =
     (let u = takeWhile (\<lambda>c. c \<noteq> CHR ''#'') rawURL in
      if list_ex controlByte u
      then Inl (LibError ''net/url: invalid control character in URL'')
      else if take 1 u = '':'' then Inl (LibError ''missing protocol scheme'')
      else Inr rawURL)"

text \<open>
  A user type with pointer receiver: \<open>Set\<close> rejects the empty text and stores any
  other at the receiver's address.
\<close>

definition text_Set :: "nat \<Rightarrow> string \<Rightarrow> (nat \<Rightarrow> string) \<Rightarrow> liberr option \<times> (nat \<Rightarrow> string)" where
  "text_Set r s h = (if s = [] then (Some (LibError ''empty value''), h) else (None, h(r := s)))"

definition golib :: "(string, nat, nat \<Rightarrow> string) lib" where
  "golib =
     \<lparr>ToUpper = strings_ToUpper, TrimSpace = strings_TrimSpace,
      ParseBool = strconv_ParseBool, Atoi = strconv_Atoi,
      ParseUint = strconv_ParseUint, ParseInt = strconv_ParseInt,
      ParseFloat = integral_ParseFloat, ParseDuration = nofrac_ParseDuration,
      url_Parse = partial_url_Parse, value_Set = text_Set,
      value_IsBoolFlag = (\<lambda>r. False)\<rparr>"

section \<open>Vocabulary of the statements\<close>

text \<open>A field that gets a descriptor: it can be set and its \<open>opt\<close> tag is not empty.\<close>

definition recognised :: "('u, 'r) field \<Rightarrow> bool" where
  "recognised f = (CanSet f \<and> Tag_Get (tag f) \<noteq> [])"

text \<open>The descriptor \<open>inferOptions\<close> builds for the field \<open>f\<close> at index \<open>i\<close>.\<close>

definition descriptor :: "('u, 'r, 'h) lib \<Rightarrow> string \<Rightarrow> nat \<Rightarrow> ('u, 'r) field \<Rightarrow> ('u, 'r) option_s" where
  "descriptor L prefix i f =
     \<lparr>iface = val f, ptr = i, envVar = prefix @ ''_'' @ ToUpper L (Tag_Get (tag f)),
      flagName = Tag_Get (tag f), flagDesc = []\<rparr>"

text \<open>
  The parser \<open>option.set\<close> runs on the environment text \<open>s\<close> for a field of the
  kind of \<open>k\<close>, with its result wrapped in that kind: the value and the error
  captured in \<open>err\<close>. \<open>None\<close> where no value of the kind comes back (\<open>url.Parse\<close>
  returned nil) and for the kinds that are not parsed into the field.
\<close>

definition env_parse ::
  "('u, 'r, 'h) lib \<Rightarrow> ('u, 'r) iface \<Rightarrow> string \<Rightarrow> (('u, 'r) iface \<times> liberr option) option"
where
  "env_parse L k s =
     (case k of
        IString x \<Rightarrow> Some (IString s, None)
      | IBool x \<Rightarrow> (case ParseBool L s of (v, e) \<Rightarrow> Some (IBool v, e))
      | IInt x \<Rightarrow> (case Atoi L s of (v, e) \<Rightarrow> Some (IInt v, e))
      | IUint64 x \<Rightarrow> (case ParseUint L s 10 64 of (v, e) \<Rightarrow> Some (IUint64 v, e))
      | IInt64 x \<Rightarrow> (case ParseInt L s 10 64 of (v, e) \<Rightarrow> Some (IInt64 v, e))
      | IFloat64 x \<Rightarrow> (case ParseFloat L s 64 of (v, e) \<Rightarrow> Some (IFloat64 v, e))
      | IDuration x \<Rightarrow> (case ParseDuration L s of (v, e) \<Rightarrow> Some (IDuration v, e))
      | IUrl x \<Rightarrow> (case url_Parse L s of Inl e \<Rightarrow> None | Inr u \<Rightarrow> Some (IUrl u, None))
      | IValue r \<Rightarrow> None
      | IOther t \<Rightarrow> None)"

text \<open>The \<open>flag.Value\<close> that \<open>option.set\<close> registers for a field of kind \<open>k\<close> at \<open>p\<close>.\<close>

definition flag_target :: "('u, 'r) iface \<Rightarrow> nat \<Rightarrow> 'r flagValue option" where
  "flag_target k p =
     (case k of
        IString x \<Rightarrow> Some (stringValue p)
      | IBool x \<Rightarrow> Some (boolValue p)
      | IInt x \<Rightarrow> Some (intValue p)
      | IUint64 x \<Rightarrow> Some (uint64Value p)
      | IInt64 x \<Rightarrow> Some (int64Value p)
      | IFloat64 x \<Rightarrow> Some (float64Value p)
      | IDuration x \<Rightarrow> Some (durationValue p)
      | IUrl x \<Rightarrow> Some (urlValue p)
      | IValue r \<Rightarrow> Some (userValue r)
      | IOther t \<Rightarrow> None)"

text \<open>
  The heap after the \<open>Set\<close> calls that the descriptors of user types make, in
  order, each with the text of its environment variable.
\<close>

definition user_sets ::
  "('u, 'r, 'h) lib \<Rightarrow> (string \<rightharpoonup> string) \<Rightarrow> ('u, 'r) option_s list \<Rightarrow> 'h \<Rightarrow> 'h"
where
  "user_sets L env opts h =
     foldl (\<lambda>h opt. case iface opt of
                       IValue r \<Rightarrow> snd (value_Set L r (Getenv env (envVar opt)) h)
                     | _ \<Rightarrow> h) h opts"

text \<open>
  The same for a flag argument: what \<open>Value.Set\<close> of the registered flag parses
  the text \<open>s\<close> to (package \<open>flag\<close> parses integers with base 0).
\<close>

definition flag_parse ::
  "('u, 'r, 'h) lib \<Rightarrow> ('u, 'r) iface \<Rightarrow> string \<Rightarrow> (('u, 'r) iface \<times> liberr option) option"
where
  "flag_parse L k s =
     (case k of
        IString x \<Rightarrow> Some (IString s, None)
      | IBool x \<Rightarrow> (case ParseBool L s of (v, e) \<Rightarrow> Some (IBool v, e))
      | IInt x \<Rightarrow> (case ParseInt L s 0 64 of (v, e) \<Rightarrow> Some (IInt v, e))
      | IUint64 x \<Rightarrow> (case ParseUint L s 0 64 of (v, e) \<Rightarrow> Some (IUint64 v, e))
      | IInt64 x \<Rightarrow> (case ParseInt L s 0 64 of (v, e) \<Rightarrow> Some (IInt64 v, e))
      | IFloat64 x \<Rightarrow> (case ParseFloat L s 64 of (v, e) \<Rightarrow> Some (IFloat64 v, e))
      | IDuration x \<Rightarrow> (case ParseDuration L s of (v, e) \<Rightarrow> Some (IDuration v, e))
      | IUrl x \<Rightarrow> (case url_Parse L s of Inl e \<Rightarrow> None | Inr u \<Rightarrow> Some (IUrl u, None))
      | IValue r \<Rightarrow> None
      | IOther t \<Rightarrow> None)"

section \<open>Sample inputs\<close>

text \<open>
  A world for \<open>golib\<close> with an empty heap, and a struct with an unexported tagged
  field, an untagged field and a recognised one.
\<close>

definition world_of :: "(string, nat) field list \<Rightarrow> (string, nat, nat \<Rightarrow> string) world" where
  "world_of fs = \<lparr>structFields = fs, heap = (\<lambda>a. [])\<rparr>"

definition three_fields :: "(string, nat) field list" where
  "three_fields =
     [\<lparr>CanSet = False, tag = Some ''secret'', val = IString ''x''\<rparr>,
      \<lparr>CanSet = True, tag = None, val = IInt 1\<rparr>,
      \<lparr>CanSet = True, tag = Some ''name'', val = IString []\<rparr>]"

section \<open>Descriptors\<close>

lemma infer_loop_Cons:
  "infer_loop L prefix i (f # fs) =
     (if recognised f then descriptor L prefix i f # infer_loop L prefix (Suc i) fs
      else infer_loop L prefix (Suc i) fs)"
  by (simp add: recognised_def descriptor_def Let_def replace_loop_def envSep_def)

lemma infer_loop_append:
  "infer_loop L prefix i (xs @ ys) =
     infer_loop L prefix i xs @ infer_loop L prefix (i + length xs) ys"
  by (induction xs arbitrary: i) (simp_all add: infer_loop_Cons del: infer_loop.simps(2))

lemma infer_loop_ptr:
  "opt \<in> set (infer_loop L prefix i fs) \<Longrightarrow>
     i \<le> ptr opt \<and> ptr opt < i + length fs \<and> recognised (fs ! (ptr opt - i))
       \<and> opt = descriptor L prefix (ptr opt) (fs ! (ptr opt - i))"
proof (induction fs arbitrary: i)
  case Nil
  then show ?case by simp
next
  case (Cons f fs)
  show ?case
  proof (cases "recognised f \<and> opt = descriptor L prefix i f")
    case True
    then show ?thesis by (simp add: descriptor_def)
  next
    case False
    with Cons.prems have "opt \<in> set (infer_loop L prefix (Suc i) fs)"
      by (auto simp: infer_loop_Cons simp del: infer_loop.simps(2) split: if_splits)
    from Cons.IH [OF this] show ?thesis
      by (auto simp: Suc_diff_le)
  qed
qed

lemma infer_loop_distinct: "distinct (map ptr (infer_loop L prefix i fs))"
proof (induction fs arbitrary: i)
  case Nil
  then show ?case by simp
next
  case (Cons f fs)
  have "i \<notin> ptr ` set (infer_loop L prefix (Suc i) fs)"
    using infer_loop_ptr [of _ L prefix "Suc i" fs] by fastforce
  with Cons.IH [of "Suc i"] show ?case
    by (simp add: infer_loop_Cons descriptor_def del: infer_loop.simps(2))
qed

lemma infer_loop_mem:
  "j < length fs \<Longrightarrow> recognised (fs ! j) \<Longrightarrow>
     descriptor L prefix (i + j) (fs ! j) \<in> set (infer_loop L prefix i fs)"
proof (induction fs arbitrary: i j)
  case Nil
  then show ?case by simp
next
  case (Cons f fs)
  show ?case
  proof (cases j)
    case 0
    with Cons.prems show ?thesis by (simp add: infer_loop_Cons del: infer_loop.simps(2))
  next
    case (Suc k)
    with Cons.prems Cons.IH [of k "Suc i"] show ?thesis
      by (simp add: infer_loop_Cons del: infer_loop.simps(2))
  qed
qed

lemma infer_loop_none:
  "\<forall>f\<in>set fs. \<not> recognised f \<Longrightarrow> infer_loop L prefix i fs = []"
  by (induction fs arbitrary: i) (simp_all add: infer_loop_Cons del: infer_loop.simps(2))

lemma infer_loop_ptrs:
  "map ptr (infer_loop L prefix i fs) =
     map (\<lambda>j. i + j) (filter (\<lambda>j. recognised (fs ! j)) [0..<length fs])"
proof (induction fs arbitrary: i)
  case Nil
  then show ?case by simp
next
  case (Cons f fs)
  have up: "[0..<length (f # fs)] = 0 # map Suc [0..<length fs]"
    by (simp add: upt_conv_Cons map_Suc_upt del: upt_Suc)
  show ?case
    unfolding up
    by (simp add: infer_loop_Cons Cons.IH filter_map comp_def descriptor_def
             del: infer_loop.simps(2) upt_Suc)
qed

lemma not_recognised:
  "tag f = None \<or> tag f = Some [] \<or> \<not> CanSet f \<Longrightarrow> \<not> recognised f"
  by (auto simp: recognised_def Tag_Get_def)

section \<open>One descriptor applied\<close>

lemma option_set_parsed:
  "env_parse L (iface opt) (Getenv env (envVar opt)) = Some (v, e) \<Longrightarrow>
     \<exists>fv. flag_target (iface opt) (ptr opt) = Some fv \<and>
     option_set L env opt (fs, w) =
       register L opt (Getenv env (envVar opt)) e fv v fs (store w (ptr opt) v)"
  by (cases "iface opt")
     (auto simp: env_parse_def flag_target_def option_set_def Let_def
           split: prod.splits sum.splits)

lemma option_set_url_nil:
  "iface opt = IUrl x \<Longrightarrow> url_Parse L (Getenv env (envVar opt)) = Inl e \<Longrightarrow>
     option_set L env opt (fs, w) = (Panics NilDereference, fs, w)"
  by (simp add: option_set_def)

lemma option_set_value:
  "iface opt = IValue r \<Longrightarrow>
     option_set L env opt (fs, w) =
       (case value_Set L r (Getenv env (envVar opt)) (heap w) of (e, h) \<Rightarrow>
          register L opt (Getenv env (envVar opt)) e (userValue r) (IValue r) fs
            (w\<lparr>heap := h\<rparr>))"
  by (simp add: option_set_def Let_def)

lemma option_set_other:
  "iface opt = IOther t \<Longrightarrow>
     option_set L env opt (fs, w) = (Returns (Some (UnsupportedType t)), fs, w)"
  by (simp add: option_set_def)

lemma register_world: "register L opt s e fv d fs w = (r, fs', w') \<Longrightarrow> w' = w"
  by (auto simp: register_def split: sum.splits)

lemma register_cases:
  "register L opt s e fv d fs w = (r, fs', w') \<Longrightarrow>
     (\<exists>p. r = Panics p \<and> fs' = fs) \<or>
     (r = after_switch L opt s e \<and> formal fs (flagName opt) = None
        \<and> take 1 (flagName opt) \<noteq> ''-'' \<and> CHR ''='' \<notin> set (flagName opt)
        \<and> fs' = fs\<lparr>formal := (formal fs)(flagName opt \<mapsto>
                 \<lparr>Name = flagName opt, Usage = flagDesc opt, Value = fv, DefValue = d\<rparr>)\<rparr>)"
  by (auto simp: register_def FlagSet_Var_def split: sum.splits if_splits option.splits)

lemma after_switch_cases:
  "after_switch L opt s e = Returns None \<or>
   (\<exists>x. e = Some x \<and> TrimSpace L s \<noteq> [] \<and> after_switch L opt s e = Returns (Some (EnvParse (envVar opt) s x)))"
  by (auto simp: after_switch_def split: option.splits)

lemma store_length [simp]: "length (structFields (store w p v)) = length (structFields w)"
  by (simp add: store_def)

lemma store_other: "j \<noteq> p \<Longrightarrow> structFields (store w p v) ! j = structFields w ! j"
  by (simp add: store_def)

lemma store_same: "p < length (structFields w) \<Longrightarrow> val (structFields (store w p v) ! p) = v"
  by (simp add: store_def)

lemma store_heap [simp]: "heap (store w p v) = heap w"
  by (simp add: store_def)

lemma option_set_result:
  assumes "option_set L env opt (fs, w) = (r, fs', w')"
  shows "(\<exists>t. iface opt = IOther t \<and> r = Returns (Some (UnsupportedType t)) \<and> fs' = fs \<and> w' = w)
    \<or> (\<exists>x e. iface opt = IUrl x \<and> url_Parse L (Getenv env (envVar opt)) = Inl e
          \<and> r = Panics NilDereference \<and> fs' = fs \<and> w' = w)
    \<or> (\<exists>rcv e h. iface opt = IValue rcv \<and> value_Set L rcv (Getenv env (envVar opt)) (heap w) = (e, h)
          \<and> w' = w\<lparr>heap := h\<rparr>
          \<and> register L opt (Getenv env (envVar opt)) e (userValue rcv) (IValue rcv) fs w' = (r, fs', w'))
    \<or> (\<exists>v e fv. env_parse L (iface opt) (Getenv env (envVar opt)) = Some (v, e)
          \<and> flag_target (iface opt) (ptr opt) = Some fv \<and> w' = store w (ptr opt) v
          \<and> register L opt (Getenv env (envVar opt)) e fv v fs w' = (r, fs', w'))"
proof (cases "env_parse L (iface opt) (Getenv env (envVar opt))")
  case (Some ve)
  obtain v e where ve: "ve = (v, e)" by (cases ve)
  from option_set_parsed [OF Some [unfolded ve], of fs w] assms
  obtain fv where fv: "flag_target (iface opt) (ptr opt) = Some fv"
    and reg: "register L opt (Getenv env (envVar opt)) e fv v fs (store w (ptr opt) v) = (r, fs', w')"
    by auto
  from register_world [OF reg] have "w' = store w (ptr opt) v" .
  with Some ve fv reg show ?thesis by auto
next
  case None
  then consider (other) t where "iface opt = IOther t"
    | (url) x e where "iface opt = IUrl x" "url_Parse L (Getenv env (envVar opt)) = Inl e"
    | (user) rcv where "iface opt = IValue rcv"
    by (cases "iface opt") (auto simp: env_parse_def split: prod.splits sum.splits)
  then show ?thesis
  proof cases
    case other
    with assms show ?thesis by (simp add: option_set_other)
  next
    case url
    with assms show ?thesis by (simp add: option_set_url_nil)
  next
    case user
    obtain e h where eh: "value_Set L rcv (Getenv env (envVar opt)) (heap w) = (e, h)"
      by (cases "value_Set L rcv (Getenv env (envVar opt)) (heap w)")
    with user assms
    have reg: "register L opt (Getenv env (envVar opt)) e (userValue rcv) (IValue rcv) fs
                 (w\<lparr>heap := h\<rparr>) = (r, fs', w')"
      by (simp add: option_set_value)
    from register_world [OF reg] have "w' = w\<lparr>heap := h\<rparr>" .
    with user eh reg show ?thesis by auto
  qed
qed

lemma option_set_frame:
  assumes "option_set L env opt (fs, w) = (r, fs', w')"
  shows "length (structFields w') = length (structFields w)
         \<and> (j \<noteq> ptr opt \<longrightarrow> structFields w' ! j = structFields w ! j)"
  using option_set_result [OF assms] by (auto simp: store_other)

section \<open>The loop over the descriptors\<close>

lemma set_loop_append:
  "set_loop L env (xs @ ys) fw =
     (case set_loop L env xs fw of
        (Returns None, fw') \<Rightarrow> set_loop L env ys fw'
      | (r, fw') \<Rightarrow> (r, fw'))"
  by (induction xs arbitrary: fw)
     (auto split: prod.splits outcome.splits option.splits)

lemma set_loop_frame:
  "set_loop L env opts (fs, w) = (r, fs', w') \<Longrightarrow>
     length (structFields w') = length (structFields w)
     \<and> (j \<notin> ptr ` set opts \<longrightarrow> structFields w' ! j = structFields w ! j)"
proof (induction opts arbitrary: fs w)
  case Nil
  then show ?case by simp
next
  case (Cons opt opts)
  obtain r1 fs1 w1 where step: "option_set L env opt (fs, w) = (r1, fs1, w1)"
    by (cases "option_set L env opt (fs, w)")
  note fr = option_set_frame [OF step, of j]
  show ?case
  proof (cases "r1 = Returns None")
    case True
    with Cons.prems step have "set_loop L env opts (fs1, w1) = (r, fs', w')" by simp
    from Cons.IH [OF this] fr show ?thesis by auto
  next
    case False
    with Cons.prems step have "w' = w1"
      by (auto split: outcome.splits option.splits)
    with fr show ?thesis by auto
  qed
qed

lemma option_set_own_field:
  assumes "option_set L env opt (fs, w) = (r, fs', w')"
    and "env_parse L (iface opt) (Getenv env (envVar opt)) = Some (v, e)"
    and "ptr opt < length (structFields w)"
  shows "val (structFields w' ! ptr opt) = v"
  using option_set_result [OF assms(1)] assms(2,3)
  by (auto simp: store_same env_parse_def)

lemma set_loop_own_field:
  "set_loop L env opts (fs, w) = (Returns None, fs', w') \<Longrightarrow>
   distinct (map ptr opts) \<Longrightarrow> opt \<in> set opts \<Longrightarrow>
   ptr opt < length (structFields w) \<Longrightarrow>
   env_parse L (iface opt) (Getenv env (envVar opt)) = Some (v, e) \<Longrightarrow>
   val (structFields w' ! ptr opt) = v"
proof (induction opts arbitrary: fs w)
  case Nil
  then show ?case by simp
next
  case (Cons o1 opts)
  obtain r1 fs1 w1 where step: "option_set L env o1 (fs, w) = (r1, fs1, w1)"
    by (cases "option_set L env o1 (fs, w)")
  with Cons.prems(1) have r1: "r1 = Returns None"
    and rest: "set_loop L env opts (fs1, w1) = (Returns None, fs', w')"
    by (auto split: outcome.splits option.splits)
  note fr = option_set_frame [OF step]
  show ?case
  proof (cases "opt = o1")
    case True
    with Cons.prems(2) have "ptr opt \<notin> ptr ` set opts" by auto
    with set_loop_frame [OF rest, of "ptr opt"]
    have "structFields w' ! ptr opt = structFields w1 ! ptr opt" by simp
    moreover have "val (structFields w1 ! ptr opt) = v"
      using option_set_own_field [OF step [folded True] Cons.prems(5,4)] .
    ultimately show ?thesis by simp
  next
    case False
    with Cons.prems(3) have "opt \<in> set opts" by simp
    moreover from Cons.prems(2) have "distinct (map ptr opts)" by simp
    moreover from Cons.prems(4) fr have "ptr opt < length (structFields w1)" by simp
    ultimately show ?thesis using Cons.IH [OF rest] Cons.prems(5) by blast
  qed
qed

lemma option_set_heap:
  assumes "option_set L env opt (fs, w) = (r, fs', w')" and "r = Returns x"
  shows "heap w' = user_sets L env [opt] (heap w)"
  using option_set_result [OF assms(1)] assms(2)
  by (auto simp: user_sets_def env_parse_def split: iface.splits)

lemma user_sets_Cons:
  "user_sets L env (opt # opts) h = user_sets L env opts (user_sets L env [opt] h)"
  by (simp add: user_sets_def)

lemma set_loop_heap:
  "set_loop L env opts (fs, w) = (Returns None, fs', w') \<Longrightarrow>
     heap w' = user_sets L env opts (heap w)"
proof (induction opts arbitrary: fs w)
  case Nil
  then show ?case by (simp add: user_sets_def)
next
  case (Cons o1 opts)
  obtain r1 fs1 w1 where step: "option_set L env o1 (fs, w) = (r1, fs1, w1)"
    by (cases "option_set L env o1 (fs, w)")
  with Cons.prems(1) have r1: "r1 = Returns None"
    and rest: "set_loop L env opts (fs1, w1) = (Returns None, fs', w')"
    by (auto split: outcome.splits option.splits)
  from option_set_heap [OF step r1] Cons.IH [OF rest] show ?case
    by (simp add: user_sets_Cons [of L env o1 opts])
qed

lemma option_set_registers:
  assumes "option_set L env opt (fs, w) = (Returns None, fs', w')"
  shows "\<exists>fv d. flag_target (iface opt) (ptr opt) = Some fv
           \<and> formal fs (flagName opt) = None
           \<and> take 1 (flagName opt) \<noteq> ''-'' \<and> CHR ''='' \<notin> set (flagName opt)
           \<and> fs' = fs\<lparr>formal := (formal fs)(flagName opt \<mapsto>
                 \<lparr>Name = flagName opt, Usage = flagDesc opt, Value = fv, DefValue = d\<rparr>)\<rparr>"
  using option_set_result [OF assms]
  by (auto dest!: register_cases simp: flag_target_def)

lemma set_loop_formal_kept:
  "set_loop L env opts (fs, w) = (Returns None, fs', w') \<Longrightarrow>
     formal fs n = Some flg \<Longrightarrow> formal fs' n = Some flg"
proof (induction opts arbitrary: fs w)
  case Nil
  then show ?case by simp
next
  case (Cons o1 opts)
  obtain r1 fs1 w1 where step: "option_set L env o1 (fs, w) = (r1, fs1, w1)"
    by (cases "option_set L env o1 (fs, w)")
  with Cons.prems(1) have r1: "r1 = Returns None"
    and rest: "set_loop L env opts (fs1, w1) = (Returns None, fs', w')"
    by (auto split: outcome.splits option.splits)
  from option_set_registers [OF step [unfolded r1]] Cons.prems(2)
  have "formal fs1 n = Some flg" by auto
  from Cons.IH [OF rest this] show ?case .
qed

lemma set_loop_registered:
  "set_loop L env opts (fs, w) = (Returns None, fs', w') \<Longrightarrow> opt \<in> set opts \<Longrightarrow>
     \<exists>flg. formal fs' (flagName opt) = Some flg
       \<and> flag_target (iface opt) (ptr opt) = Some (Value flg)
       \<and> take 1 (flagName opt) \<noteq> ''-'' \<and> CHR ''='' \<notin> set (flagName opt)"
proof (induction opts arbitrary: fs w)
  case Nil
  then show ?case by simp
next
  case (Cons o1 opts)
  obtain r1 fs1 w1 where step: "option_set L env o1 (fs, w) = (r1, fs1, w1)"
    by (cases "option_set L env o1 (fs, w)")
  with Cons.prems(1) have r1: "r1 = Returns None"
    and rest: "set_loop L env opts (fs1, w1) = (Returns None, fs', w')"
    by (auto split: outcome.splits option.splits)
  show ?case
  proof (cases "opt \<in> set opts")
    case True
    from Cons.IH [OF rest True] show ?thesis .
  next
    case False
    with Cons.prems(2) have eq: "opt = o1" by simp
    from option_set_registers [OF step [unfolded r1]]
    obtain fv d where fv: "flag_target (iface o1) (ptr o1) = Some fv"
      and nm: "take 1 (flagName o1) \<noteq> ''-''" "CHR ''='' \<notin> set (flagName o1)"
      and fs1: "formal fs1 (flagName o1) =
                  Some \<lparr>Name = flagName o1, Usage = flagDesc o1, Value = fv, DefValue = d\<rparr>"
      by auto
    from set_loop_formal_kept [OF rest fs1] fv nm show ?thesis
      unfolding eq by simp
  qed
qed

lemma set_loop_flagset:
  "set_loop L env opts (fs, w) = (Returns None, fs', w') \<Longrightarrow>
     dom (formal fs') = dom (formal fs) \<union> flagName ` set opts
     \<and> errorHandling fs' = errorHandling fs \<and> parsed fs' = parsed fs
     \<and> actual fs' = actual fs \<and> fsArgs fs' = fsArgs fs"
proof (induction opts arbitrary: fs w)
  case Nil
  then show ?case by simp
next
  case (Cons o1 opts)
  obtain r1 fs1 w1 where step: "option_set L env o1 (fs, w) = (r1, fs1, w1)"
    by (cases "option_set L env o1 (fs, w)")
  with Cons.prems(1) have r1: "r1 = Returns None"
    and rest: "set_loop L env opts (fs1, w1) = (Returns None, fs', w')"
    by (auto split: outcome.splits option.splits)
  from option_set_registers [OF step [unfolded r1]] Cons.IH [OF rest] show ?case
    by auto
qed

section \<open>Parsing the argument list\<close>

declare parse_loop.simps [simp del]

lemma parse_loop_no_args:
  "fsArgs f = [] \<Longrightarrow> parse_loop L (f, w) = (Returns None, f, w)"
  by (subst parse_loop.simps) (simp add: parseOne_def)

lemma split_value_assigned:
  "n \<noteq> [] \<Longrightarrow> CHR ''='' \<notin> set n \<Longrightarrow> split_value (n @ CHR ''='' # v) = (n, True, v)"
proof -
  assume n: "n \<noteq> []" and eq: "CHR ''='' \<notin> set n"
  then obtain c cs where cs: "n = c # cs" by (cases n) auto
  with eq have "\<forall>x\<in>set cs. x \<noteq> CHR ''=''" by auto
  then have "dropWhile (\<lambda>x. x \<noteq> CHR ''='') (cs @ CHR ''='' # v) = CHR ''='' # v"
    and "takeWhile (\<lambda>x. x \<noteq> CHR ''='') (cs @ CHR ''='' # v) = cs"
    by simp_all
  then show ?thesis by (simp add: split_value_def cs)
qed

lemma split_value_plain:
  "n \<noteq> [] \<Longrightarrow> CHR ''='' \<notin> set n \<Longrightarrow> split_value n = (n, False, [])"
proof -
  assume n: "n \<noteq> []" and eq: "CHR ''='' \<notin> set n"
  then obtain c cs where cs: "n = c # cs" by (cases n) auto
  with eq have "\<forall>x\<in>set cs. x \<noteq> CHR ''=''" by auto
  then have dw: "dropWhile (\<lambda>x. x \<noteq> CHR ''='') cs = []" by simp
  show ?thesis by (simp add: split_value_def cs dw del: dropWhile_eq_Nil_conv)
qed

lemma Value_Set_target:
  "flag_target k p = Some fv \<Longrightarrow> flag_parse L k s = Some (v, e) \<Longrightarrow>
     Value_Set L fv s w = (e, store w p v)"
  by (cases k) (auto simp: flag_target_def flag_parse_def Value_Set_def split: prod.splits sum.splits)

lemma Value_Set_user:
  "flag_target (IValue r) p = Some fv \<Longrightarrow>
     Value_Set L fv s w = (fst (value_Set L r s (heap w)), w\<lparr>heap := snd (value_Set L r s (heap w))\<rparr>)"
  by (auto simp: flag_target_def Value_Set_def split: prod.splits)

text \<open>An argument \<open>-name=text\<close> for a defined flag: \<open>Set(text)\<close> is called, whatever the kind.\<close>

lemma parseOne_assigned:
  assumes "fsArgs f = (CHR ''-'' # n @ CHR ''='' # v) # rest"
    and "n \<noteq> []" "take 1 n \<noteq> ''-''" "CHR ''='' \<notin> set n"
    and "formal f n = Some flg"
    and "Value_Set L (Value flg) v w = (None, w')"
  shows "parseOne L (f, w) = ((True, None), f\<lparr>fsArgs := rest, actual := (actual f)(n \<mapsto> flg)\<rparr>, w')"
proof -
  from assms(2) obtain c cs where cs: "n = c # cs" by (cases n) auto
  with assms(3,4) have c: "c \<noteq> CHR ''-''" "c \<noteq> CHR ''=''" by auto
  have sv: "split_value (n @ CHR ''='' # v) = (n, True, v)"
    using assms(2,4) by (rule split_value_assigned)
  have pf: "parseFlag L (n @ CHR ''='' # v) rest (f, w) =
          ((True, None), f\<lparr>fsArgs := rest, actual := (actual f)(n \<mapsto> flg)\<rparr>, w')"
    using assms(5,6) by (simp add: parseFlag_def sv)
  show ?thesis
    using c pf by (simp add: parseOne_def assms(1) cs)
qed

lemma parse_loop_assigned:
  assumes "fsArgs f = [CHR ''-'' # n @ CHR ''='' # v]"
    and "n \<noteq> []" "take 1 n \<noteq> ''-''" "CHR ''='' \<notin> set n"
    and "formal f n = Some flg"
    and "Value_Set L (Value flg) v w = (None, w')"
  shows "parse_loop L (f, w) = (Returns None, f\<lparr>fsArgs := [], actual := (actual f)(n \<mapsto> flg)\<rparr>, w')"
  by (subst parse_loop.simps) (simp add: parseOne_assigned [OF assms] parse_loop_no_args)

text \<open>The two-argument form \<open>-name text\<close>, for a flag that is not boolean.\<close>

lemma parseOne_next_arg:
  assumes "fsArgs f = (CHR ''-'' # n) # v # rest"
    and "n \<noteq> []" "take 1 n \<noteq> ''-''" "CHR ''='' \<notin> set n"
    and "formal f n = Some flg" "\<not> IsBoolFlag L (Value flg)"
    and "Value_Set L (Value flg) v w = (None, w')"
  shows "parseOne L (f, w) = ((True, None), f\<lparr>fsArgs := rest, actual := (actual f)(n \<mapsto> flg)\<rparr>, w')"
proof -
  from assms(2) obtain c cs where cs: "n = c # cs" by (cases n) auto
  with assms(3,4) have c: "c \<noteq> CHR ''-''" "c \<noteq> CHR ''=''" by auto
  have sv: "split_value n = (n, False, [])"
    using assms(2,4) by (rule split_value_plain)
  have pf: "parseFlag L n (v # rest) (f, w) =
          ((True, None), f\<lparr>fsArgs := rest, actual := (actual f)(n \<mapsto> flg)\<rparr>, w')"
    using assms(5,6,7) by (simp add: parseFlag_def sv)
  show ?thesis
    using c pf by (simp add: parseOne_def assms(1) cs)
qed

lemma parse_loop_next_arg:
  assumes "fsArgs f = [CHR ''-'' # n, v]"
    and "n \<noteq> []" "take 1 n \<noteq> ''-''" "CHR ''='' \<notin> set n"
    and "formal f n = Some flg" "\<not> IsBoolFlag L (Value flg)"
    and "Value_Set L (Value flg) v w = (None, w')"
  shows "parse_loop L (f, w) = (Returns None, f\<lparr>fsArgs := [], actual := (actual f)(n \<mapsto> flg)\<rparr>, w')"
  by (subst parse_loop.simps) (simp add: parseOne_next_arg [OF assms] parse_loop_no_args)

section \<open>The claims\<close>

subsection \<open>The shape of the configuration argument\<close>

text \<open>
  Claim C6. For an argument that is not a pointer to a struct (the untyped nil, a
  struct or any other value that is no pointer, a nil pointer, a pointer to something
  that is no struct), \<open>Load\<close> returns an error that carries the argument's type. It
  does so without a panic and before anything is read or written: the caller's flag
  set and the world are returned as they were.
\<close>

theorem Load_rejects_config_shape:
  "Load L env osArgs prefix UntypedNil flags w = (Returns (Some (ConfigShape ''<nil>'')), flags, w)
   \<and> Load L env osArgs prefix (StructValue t) flags w = (Returns (Some (ConfigShape t)), flags, w)
   \<and> Load L env osArgs prefix (OtherValue t) flags w = (Returns (Some (ConfigShape t)), flags, w)
   \<and> Load L env osArgs prefix (Pointer t NilPointer) flags w
       = (Returns (Some (ConfigShape t)), flags, w)
   \<and> Load L env osArgs prefix (Pointer t NonStruct) flags w
       = (Returns (Some (ConfigShape t)), flags, w)"
  by (simp add: Load_def inferOptions_def)

subsection \<open>Which fields get a descriptor\<close>

text \<open>
  Claim C9. For a pointer to a struct \<open>inferOptions\<close> reports no error. Its
  descriptors point to exactly the recognised fields, in declaration order; a field
  with no \<open>opt\<close> tag, with an empty one, or that cannot be set has no descriptor; and
  when no field is recognised the result is the empty sequence.
\<close>

theorem inferOptions_skips_fields:
  "inferOptions L prefix (Pointer t Struct) w = Inr (infer_loop L prefix 0 (structFields w))
   \<and> map ptr (infer_loop L prefix 0 (structFields w))
       = filter (\<lambda>j. recognised (structFields w ! j)) [0..<length (structFields w)]
   \<and> (\<forall>j < length (structFields w).
         (tag (structFields w ! j) = None \<or> tag (structFields w ! j) = Some []
            \<or> \<not> CanSet (structFields w ! j))
         \<longrightarrow> j \<notin> ptr ` set (infer_loop L prefix 0 (structFields w)))
   \<and> ((\<forall>f \<in> set (structFields w). tag f = None \<or> tag f = Some [] \<or> \<not> CanSet f)
         \<longrightarrow> infer_loop L prefix 0 (structFields w) = [])"
proof -
  let ?fs = "structFields w"
  have a: "inferOptions L prefix (Pointer t Struct) w = Inr (infer_loop L prefix 0 ?fs)"
    by (simp add: inferOptions_def)
  have b: "map ptr (infer_loop L prefix 0 ?fs) = filter (\<lambda>j. recognised (?fs ! j)) [0..<length ?fs]"
    by (simp add: infer_loop_ptrs)
  have c: "j \<notin> ptr ` set (infer_loop L prefix 0 ?fs)"
    if "tag (?fs ! j) = None \<or> tag (?fs ! j) = Some [] \<or> \<not> CanSet (?fs ! j)" for j
  proof
    assume "j \<in> ptr ` set (infer_loop L prefix 0 ?fs)"
    then obtain opt where "opt \<in> set (infer_loop L prefix 0 ?fs)" "ptr opt = j" by auto
    from infer_loop_ptr [OF this(1)] this(2) have "recognised (?fs ! j)" by simp
    with not_recognised [OF that] show False by simp
  qed
  have d: "infer_loop L prefix 0 ?fs = []"
    if "\<forall>f \<in> set ?fs. tag f = None \<or> tag f = Some [] \<or> \<not> CanSet f"
    using that not_recognised by (intro infer_loop_none) blast
  from a b c d show ?thesis by blast
qed

text \<open>
  On \<open>three_fields\<close> only the third field has a descriptor; on its first two fields
  alone the result is empty.
\<close>

theorem inferOptions_skips_fields_witness:
  "inferOptions golib ''APP'' (Pointer ''*main.Config'' Struct) (world_of three_fields)
     = Inr [\<lparr>iface = IString [], ptr = 2, envVar = ''APP_NAME'', flagName = ''name'',
             flagDesc = []\<rparr>]
   \<and> \<not> CanSet (three_fields ! 0) \<and> 0 \<notin> ptr ` set (infer_loop golib ''APP'' 0 three_fields)
   \<and> tag (three_fields ! 1) = None \<and> 1 \<notin> ptr ` set (infer_loop golib ''APP'' 0 three_fields)
   \<and> inferOptions golib ''APP'' (Pointer ''*main.Config'' Struct) (world_of (take 2 three_fields))
       = Inr []"
proof -
  have ev: "infer_loop golib ''APP'' 0 three_fields
     = [\<lparr>iface = IString [], ptr = 2, envVar = ''APP_NAME'', flagName = ''name'',
             flagDesc = []\<rparr>]"
    by code_simp
  have none: "\<forall>f \<in> set (take 2 three_fields). tag f = None \<or> tag f = Some [] \<or> \<not> CanSet f"
    by (simp add: three_fields_def)
  from inferOptions_skips_fields [of golib "''APP''" "''*main.Config''" "world_of three_fields"]
       inferOptions_skips_fields [of golib "''APP''" "''*main.Config''" "world_of (take 2 three_fields)"]
       none
  show ?thesis
    by (simp add: world_of_def ev) (simp add: three_fields_def)
qed

subsection \<open>The name of the environment variable\<close>

text \<open>
  Claim C2. The environment variable of a field is to be the prefix, an underscore,
  and the tag in upper case with every \<open>.\<close> and \<open>-\<close> replaced by \<open>_\<close>. The code
  computes the replacements and drops them: for the prefix \<open>APP\<close> and the tag
  \<open>query.timeout\<close> the variable it reads is \<open>APP_QUERY.TIMEOUT\<close>, not
  \<open>APP_QUERY_TIMEOUT\<close>.
\<close>

theorem envVar_keeps_separators:
  "inferOptions golib ''APP'' (Pointer ''*main.Config'' Struct)
     (world_of [\<lparr>CanSet = True, tag = Some ''query.timeout'', val = IDuration 0\<rparr>])
   = Inr [\<lparr>iface = IDuration 0, ptr = 0, envVar = ''APP_QUERY.TIMEOUT'',
           flagName = ''query.timeout'', flagDesc = []\<rparr>]
   \<and> ''APP_QUERY.TIMEOUT'' \<noteq> ''APP_QUERY_TIMEOUT''"
  by code_simp

subsection \<open>Blank and invalid environment text\<close>

text \<open>
  Claim C1. With the environment variable set to the empty string or to white space
  only, \<open>Load\<close> is to return no error and the field is to keep its default. The
  code returns no error but assigns what the parser returned: a string field takes
  the blank text itself, a bool field with default \<open>true\<close> becomes \<open>false\<close>, an int
  field with default \<open>5\<close> (its variable not set at all) becomes \<open>0\<close>.
\<close>

theorem blank_env_overwrites_default:
  "(case Load golib [''APP_S'' \<mapsto> ''  '', ''APP_B'' \<mapsto> ''''] [''prog''] ''APP''
           (Pointer ''*main.Config'' Struct) None
           (world_of [\<lparr>CanSet = True, tag = Some ''s'', val = IString ''dflt''\<rparr>,
                      \<lparr>CanSet = True, tag = Some ''b'', val = IBool True\<rparr>,
                      \<lparr>CanSet = True, tag = Some ''i'', val = IInt 5\<rparr>])
    of (r, fl, w') \<Rightarrow>
      r = Returns None
      \<and> structFields w' =
          [\<lparr>CanSet = True, tag = Some ''s'', val = IString ''  ''\<rparr>,
           \<lparr>CanSet = True, tag = Some ''b'', val = IBool False\<rparr>,
           \<lparr>CanSet = True, tag = Some ''i'', val = IInt 0\<rparr>])"
  by code_simp

text \<open>
  Claim C4. With the environment variable set to text that is invalid for the
  field's type, \<open>Load\<close> is to return an error and not to panic. For a \<open>url.URL\<close>
  field the code dereferences the nil pointer that \<open>url.Parse\<close> returns with its
  error: \<open>Load\<close> panics.
\<close>

theorem invalid_url_panics:
  "(case Load golib [''APP_URL'' \<mapsto> ''://example.com''] [''prog''] ''APP''
           (Pointer ''*main.Config'' Struct) None
           (world_of [\<lparr>CanSet = True, tag = Some ''url'', val = IUrl []\<rparr>])
    of (r, fl, w') \<Rightarrow> r = Panics NilDereference)"
  by code_simp

end
